theory Spec2Isabelle
  imports Complex_Main "HOL-Library.Sublist" "HOL-Library.Multiset"
begin

section \<open>The apitest package: data model\<close>

text \<open>
  The package drives one \<^verbatim>\<open>http.HandlerFunc\<close> per test case and checks the recorded
  response. Everything it does beyond computing values is made explicit here:

  \<^item> the handler, the hooks and the assertion functions are Go closures that may read
    and change anything they captured; that shared state is the type parameter \<open>'w\<close>
    (the world), passed in and returned;
  \<^item> \<^verbatim>\<open>*testing.T\<close> is write-only for the package: every call that can mark the
    test as failed (\<^verbatim>\<open>t.Error\<close>, \<^verbatim>\<open>t.Errorf\<close>, the \<^verbatim>\<open>assert\<close> functions) and every
    call of a user-supplied function is appended to a list of events, in program order;
  \<^item> \<^verbatim>\<open>encoding/json\<close>, \<^verbatim>\<open>net/http/httptest\<close> and \<^verbatim>\<open>testify/assert\<close> are libraries
    outside the repository: the two uses of \<^verbatim>\<open>json.Unmarshal\<close> are parameters of the
    model, the recorder is folded into the handler's result, and each \<^verbatim>\<open>assert\<close> call
    is an event whose verdict is given by \<open>fails\<close> below.

  A callback (the handler, a hook, an assertion function) is modelled by what it does
  when it returns; a callback that ends the goroutine of the test (a panic,
  \<^verbatim>\<open>t.FailNow\<close>) ends the test in the Go runtime and is outside the model. Go's
  \<^verbatim>\<open>int\<close> is modelled by \<open>int\<close>: status codes are compared, never computed with.
\<close>

subsection \<open>Values decoded from JSON\<close>

text \<open>
  What \<^verbatim>\<open>json.Unmarshal\<close> stores in an \<^verbatim>\<open>interface{}\<close>: \<^verbatim>\<open>nil\<close>, \<^verbatim>\<open>bool\<close>,
  \<^verbatim>\<open>float64\<close>, \<^verbatim>\<open>string\<close>, \<^verbatim>\<open>[]interface{}\<close> and \<^verbatim>\<open>map[string]interface{}\<close>.
  \<open>Nil\<close> is also the zero value that a map lookup yields for a missing key.
  A \<^verbatim>\<open>float64\<close> decoded from JSON is finite, hence a rational number; the package
  never inspects it.
\<close>

type_synonym float64 = rat

datatype iface =
    Nil
  | Bool bool
  | Float64 float64
  | String string
  | Slice "iface list"
  | Object "(string \<times> iface) list"

subsection \<open>Errors\<close>

text \<open>
  Go \<^verbatim>\<open>error\<close> values. \<open>LibraryError\<close> is an error produced by a library
  (\<^verbatim>\<open>ioutil.ReadAll\<close>, \<^verbatim>\<open>json.Unmarshal\<close>) with its message; \<open>UnacceptableStatus\<close> is
  the error built at line 187 by
  \<^verbatim>\<open>fmt.Errorf("apitest: handler request to %s resulted in a unaccepteable %d status:\n%s", p.Route, w.Code, string(body))\<close>,
  kept with its three arguments.
\<close>

datatype error =
    LibraryError string
  | UnacceptableStatus string int string

subsection \<open>Requests and responses\<close>

text \<open>
  \<^verbatim>\<open>httptest.NewRequest(p.Method, p.Route, buff)\<close>: the request carries the method,
  the target and the body.
\<close>

datatype Request = NewRequest string string string

text \<open>
  \<^verbatim>\<open>resp.Body\<close> is an \<^verbatim>\<open>io.ReadCloser\<close>. \<open>ReadAll\<close> returns the bytes that could
  be read and the error that stopped the read, if any.
\<close>

datatype ReadCloser = Reader string "error option"

fun ReadAll :: "ReadCloser \<Rightarrow> string \<times> error option" where
  "ReadAll (Reader bytes err) = (bytes, err)"

text \<open>
  The \<^verbatim>\<open>*http.Response\<close> that \<^verbatim>\<open>w.Result()\<close> returns. \<^verbatim>\<open>Result\<close> copies the
  recorder's \<^verbatim>\<open>Code\<close> into \<^verbatim>\<open>StatusCode\<close>, so \<^verbatim>\<open>w.Code\<close> (line 186) and
  \<^verbatim>\<open>resp.StatusCode\<close> (line 75) are the same number.
\<close>

record Response =
  StatusCode :: int
  Header :: "(string \<times> string list) list"
  Body :: ReadCloser

text \<open>
  An \<^verbatim>\<open>http.HandlerFunc\<close> together with the recorder it writes to: from the request
  and the world to the recorded response and the world it leaves.
\<close>

type_synonym 'w HandlerFunc = "Request \<Rightarrow> 'w \<Rightarrow> Response \<times> 'w"

record 'w HandlerReqParams =
  Route :: string
  Method :: string
  HandlerFunc :: "'w HandlerFunc"

section \<open>The request harness\<close>

text \<open>
  Lines 181-189. The accepted codes are first stored in a \<^verbatim>\<open>map[int]bool\<close>;
  the request is refused when the code is not a key of the map or is mapped to
  \<^verbatim>\<open>false\<close>.
\<close>

definition statusMap :: "int list \<Rightarrow> (int \<rightharpoonup> bool)" where
  "statusMap acceptedStatusCodes =
     fold (\<lambda>status m. m(status \<mapsto> True)) acceptedStatusCodes Map.empty"

definition MakeHandlerRequest ::
  "'w HandlerReqParams \<Rightarrow> string \<Rightarrow> int list \<Rightarrow> 'w \<Rightarrow> (Response \<times> string \<times> error option) \<times> 'w" where
  "MakeHandlerRequest p content acceptedStatusCodes w =
     (let r = NewRequest (HandlerReqParams.Method p) (HandlerReqParams.Route p) content;
          (resp, w') = HandlerReqParams.HandlerFunc p r w;
          (body, err) = ReadAll (Body resp)
      in case err of
           Some e \<Rightarrow> ((resp, body, Some e), w')
         | None \<Rightarrow>
             if length acceptedStatusCodes > 0
             then (case statusMap acceptedStatusCodes (StatusCode resp) of
                     None \<Rightarrow>
                       ((resp, body,
                         Some (UnacceptableStatus (HandlerReqParams.Route p) (StatusCode resp) body)), w')
                   | Some v \<Rightarrow>
                       if \<not> v
                       then ((resp, body,
                              Some (UnacceptableStatus (HandlerReqParams.Route p) (StatusCode resp) body)), w')
                       else ((resp, body, None), w'))
             else ((resp, body, None), w'))"

text \<open>The three components of the harness's result, and the world it leaves.\<close>

definition harness_resp :: "'w HandlerReqParams \<Rightarrow> string \<Rightarrow> int list \<Rightarrow> 'w \<Rightarrow> Response" where
  "harness_resp p content acc w = fst (fst (MakeHandlerRequest p content acc w))"

definition harness_body :: "'w HandlerReqParams \<Rightarrow> string \<Rightarrow> int list \<Rightarrow> 'w \<Rightarrow> string" where
  "harness_body p content acc w = fst (snd (fst (MakeHandlerRequest p content acc w)))"

definition harness_err :: "'w HandlerReqParams \<Rightarrow> string \<Rightarrow> int list \<Rightarrow> 'w \<Rightarrow> error option" where
  "harness_err p content acc w = snd (snd (fst (MakeHandlerRequest p content acc w)))"

text \<open>
  What the handler recorded for the harness's request: the response, and the outcome
  of reading its body.
\<close>

definition recorded :: "'w HandlerReqParams \<Rightarrow> string \<Rightarrow> 'w \<Rightarrow> Response" where
  "recorded p content w =
     fst (HandlerReqParams.HandlerFunc p
            (NewRequest (HandlerReqParams.Method p) (HandlerReqParams.Route p) content) w)"

definition read_body :: "'w HandlerReqParams \<Rightarrow> string \<Rightarrow> 'w \<Rightarrow> string" where
  "read_body p content w = fst (ReadAll (Body (recorded p content w)))"

definition read_err :: "'w HandlerReqParams \<Rightarrow> string \<Rightarrow> 'w \<Rightarrow> error option" where
  "read_err p content w = snd (ReadAll (Body (recorded p content w)))"

section \<open>The test suite\<close>

subsection \<open>What happens to the test context\<close>

text \<open>
  The four hooks a run can call: \<^verbatim>\<open>ts.BeforeTestFunc\<close>, \<^verbatim>\<open>tt.BeforeRunFunc\<close>,
  \<^verbatim>\<open>tt.AfterRunFunc\<close> and \<^verbatim>\<open>ts.AfterTestFunc\<close>.
\<close>

datatype hook = SuiteBefore | CaseBefore | CaseAfter | SuiteAfter

text \<open>
  One event per call that reaches \<^verbatim>\<open>t\<close> or a user-supplied function:
  \<^item> \<open>HookCalled h msgs\<close>: hook \<open>h\<close> was called and reported the failures \<open>msgs\<close>;
  \<^item> \<open>HarnessCalled route method' content accepted\<close>: line 71 called \<^verbatim>\<open>MakeHandlerRequest\<close>;
  \<^item> \<open>AssertNoError err\<close>: \<^verbatim>\<open>assert.NoError(t, err)\<close>;
  \<^item> \<open>AssertEqualInt expected actual\<close>, \<open>AssertEqualString expected actual\<close>:
    \<^verbatim>\<open>assert.Equal(t, expected, actual)\<close>;
  \<^item> \<open>AssertNotEmpty s\<close>: \<^verbatim>\<open>assert.NotEmpty(t, s)\<close>;
  \<^item> \<open>AssertContains s sub\<close>: \<^verbatim>\<open>assert.Contains(t, s, sub)\<close>;
  \<^item> \<open>TError err\<close>: \<^verbatim>\<open>t.Error(err)\<close>;
  \<^item> \<open>TErrorfMissingKey k\<close>: the \<^verbatim>\<open>t.Errorf\<close> of line 111, for key \<open>k\<close>;
  \<^item> \<open>AssertFuncCalled k v msgs\<close>: line 113 called the assertion function of field
    \<open>k\<close> on the value \<open>v\<close>, and the function reported the failures \<open>msgs\<close>.
\<close>

datatype event =
    HookCalled hook "string list"
  | HarnessCalled string string string "int list"
  | AssertNoError "error option"
  | AssertEqualInt int int
  | AssertEqualString string string
  | AssertNotEmpty string
  | AssertContains string string
  | TError error
  | TErrorfMissingKey string
  | AssertFuncCalled string iface "string list"

text \<open>
  Whether an event marks the test as failed. For the \<^verbatim>\<open>assert\<close> functions this is
  testify's documented verdict on the argument types used here (\<^verbatim>\<open>int\<close> and
  \<^verbatim>\<open>string\<close>); \<^verbatim>\<open>assert.Contains\<close> on strings is \<^verbatim>\<open>strings.Contains\<close>.
\<close>

fun fails :: "event \<Rightarrow> bool" where
  "fails (HookCalled h msgs) = (msgs \<noteq> [])"
| "fails (HarnessCalled route method' content accepted) = False"
| "fails (AssertNoError err) = (err \<noteq> None)"
| "fails (AssertEqualInt expected actual) = (expected \<noteq> actual)"
| "fails (AssertEqualString expected actual) = (expected \<noteq> actual)"
| "fails (AssertNotEmpty s) = (s = [])"
| "fails (AssertContains s sub) = (\<not> sublist sub s)"
| "fails (TError err) = True"
| "fails (TErrorfMissingKey k) = True"
| "fails (AssertFuncCalled k v msgs) = (msgs \<noteq> [])"

text \<open>
  The test context together with the world: the events so far, oldest first, and the
  state the callbacks share.
\<close>

record 'w T =
  events :: "event list"
  world :: 'w

definition report :: "event list \<Rightarrow> 'w T \<Rightarrow> 'w T" where
  "report es t = t\<lparr>events := events t @ es\<rparr>"

subsection \<open>Suites and cases\<close>

text \<open>
  A \<^verbatim>\<open>func(*testing.T)\<close>: it may change the world and report failures on \<^verbatim>\<open>t\<close>.
  A field that can be \<^verbatim>\<open>nil\<close> is an \<open>option\<close>.
\<close>

type_synonym 'w TestFunc = "'w \<Rightarrow> string list \<times> 'w"

text \<open>
  \<^verbatim>\<open>type AssertFunc func(t *testing.T, v interface{})\<close>, "a function that takes the
  testing.T pointer, a value v, and asserts whether v is good". Like a hook it is a
  closure: from the value and the world to the failures it reports on \<^verbatim>\<open>t\<close> (none
  when the value is good) and the world it leaves.
\<close>

type_synonym 'w AssertFunc = "iface \<Rightarrow> 'w \<Rightarrow> string list \<times> 'w"

record 'w TestSuite =
  Route :: string
  Method :: string
  HandlerFunc :: "'w HandlerFunc"
  AfterTestFunc :: "'w TestFunc option"
  BeforeTestFunc :: "'w TestFunc option"

text \<open>
  \<open>AssertContentFields\<close> is a \<^verbatim>\<open>map[string]AssertFunc\<close>, \<open>None\<close> when \<^verbatim>\<open>nil\<close>. It is
  kept as the list of its entries in the order in which the \<^verbatim>\<open>range\<close> loop of line
  108 visits them (Go leaves that order open).
\<close>

record 'w HandlerTest =
  Name :: string
  Content :: string
  WantStatusCode :: int
  WantContent :: string
  WantErr :: bool
  WantErrMessage :: string
  AssertContentFields :: "(string \<times> 'w AssertFunc) list option"
  BeforeRunFunc :: "'w TestFunc option"
  AfterRunFunc :: "'w TestFunc option"
  SkipBeforeTestFunc :: bool
  SkipAfterTestFunc :: bool

subsection \<open>The JSON decoder\<close>

text \<open>
  Modelled from the spec: the type \<^verbatim>\<open>api.Error\<close> is declared in the package
  \<^verbatim>\<open>go-api\<close>, which is not among the sources. The spec gives the error shape as an
  integer \<open>code\<close> and a string \<open>message\<close>; \<open>Code\<close> is the value of
  \<^verbatim>\<open>int(errH.Code)\<close>.
\<close>

record api_Error =
  Code :: int
  Message :: string

text \<open>
  The two uses of \<^verbatim>\<open>json.Unmarshal\<close>: into a fresh \<^verbatim>\<open>api.Error\<close> (line 83) and
  into a fresh \<^verbatim>\<open>map[string]interface{}\<close> (line 103). Each returns the target as the
  call left it, and the error.
\<close>

record json =
  Unmarshal_Error :: "string \<Rightarrow> api_Error \<times> error option"
  Unmarshal_map :: "string \<Rightarrow> (string \<rightharpoonup> iface) \<times> error option"

subsection \<open>Running one case\<close>

text \<open>Calling a hook: it runs in the current world and its call is recorded.\<close>

definition call_hook :: "hook \<Rightarrow> 'w TestFunc \<Rightarrow> 'w T \<Rightarrow> 'w T" where
  "call_hook h f t =
     (let (msgs, w') = f (world t)
      in \<lparr>events = events t @ [HookCalled h msgs], world = w'\<rparr>)"

text \<open>Lines 56-63: the suite's before-hook, then the case's.\<close>

definition run_before :: "'w TestSuite \<Rightarrow> 'w HandlerTest \<Rightarrow> 'w T \<Rightarrow> 'w T" where
  "run_before ts tt t =
     (let t1 = (case BeforeTestFunc ts of
                  Some f \<Rightarrow> if \<not> SkipBeforeTestFunc tt then call_hook SuiteBefore f t else t
                | None \<Rightarrow> t);
          t2 = (case BeforeRunFunc tt of
                  Some f \<Rightarrow> call_hook CaseBefore f t1
                | None \<Rightarrow> t1)
      in t2)"

text \<open>
  Lines 81-97: the checks on the error shape, as the events they add to \<^verbatim>\<open>t\<close>.
  After \<^verbatim>\<open>t.Error(err)\<close> the block goes on with \<^verbatim>\<open>errH\<close> as the decoder left it.
\<close>

definition error_checks :: "json \<Rightarrow> 'w HandlerTest \<Rightarrow> string \<Rightarrow> event list" where
  "error_checks js tt body =
     (if WantErrMessage tt \<noteq> [] \<or> WantErr tt
      then (let (errH, err) = Unmarshal_Error js body
            in (case err of Some e \<Rightarrow> [TError e] | None \<Rightarrow> []) @
               [AssertEqualInt (WantStatusCode tt) (Code errH)] @
               (if WantErr tt then [AssertNotEmpty (Message errH)] else []) @
               (if WantErrMessage tt \<noteq> []
                then [AssertContains (Message errH) (WantErrMessage tt)] else []))
      else [])"

text \<open>
  Lines 108-114: the loop over the configured fields, started in world \<open>w\<close>: the
  events it adds to \<^verbatim>\<open>t\<close> and the world it leaves. \<^verbatim>\<open>v, exists := rJSON[k]\<close>
  yields \<^verbatim>\<open>nil\<close> and \<^verbatim>\<open>false\<close> for a missing key; the assertion function is called
  after the \<^verbatim>\<open>if\<close> in either case, in the world the previous call left.
\<close>

fun field_loop ::
  "(string \<rightharpoonup> iface) \<Rightarrow> (string \<times> 'w AssertFunc) list \<Rightarrow> 'w \<Rightarrow> event list \<times> 'w" where
  "field_loop rJSON [] w = ([], w)"
| "field_loop rJSON ((k, assertFunc) # rest) w =
     (let (v, exists) = (case rJSON k of Some x \<Rightarrow> (x, True) | None \<Rightarrow> (Nil, False));
          missing = (if \<not> exists then [TErrorfMissingKey k] else []);
          (msgs, w') = assertFunc v w;
          (es, w'') = field_loop rJSON rest w'
      in (missing @ [AssertFuncCalled k v msgs] @ es, w''))"

text \<open>
  Lines 100-115: the field assertions, started in world \<open>w\<close>: the events they add to
  \<^verbatim>\<open>t\<close> and the world they leave.
\<close>

definition field_checks :: "json \<Rightarrow> 'w HandlerTest \<Rightarrow> string \<Rightarrow> 'w \<Rightarrow> event list \<times> 'w" where
  "field_checks js tt body w =
     (case AssertContentFields tt of
        None \<Rightarrow> ([], w)
      | Some fs \<Rightarrow>
          (let (rJSON, err) = Unmarshal_map js body;
               (es, w') = field_loop rJSON fs w
           in ((case err of Some e \<Rightarrow> [TError e] | None \<Rightarrow> []) @ es, w')))"

text \<open>Lines 65-115: the request and the checks on its result.\<close>

definition request_and_verify :: "json \<Rightarrow> 'w TestSuite \<Rightarrow> 'w HandlerTest \<Rightarrow> 'w T \<Rightarrow> 'w T" where
  "request_and_verify js ts tt t =
     (let hreq = \<lparr>HandlerReqParams.Route = TestSuite.Route ts,
                  HandlerReqParams.Method = TestSuite.Method ts,
                  HandlerReqParams.HandlerFunc = TestSuite.HandlerFunc ts\<rparr>;
          ((resp, body, err), w') = MakeHandlerRequest hreq (Content tt) [WantStatusCode tt] (world t);
          t1 = \<lparr>events = events t @
                   [HarnessCalled (TestSuite.Route ts) (TestSuite.Method ts) (Content tt)
                      [WantStatusCode tt]],
                world = w'\<rparr>;
          t2 = report [AssertNoError err] t1;
          t3 = report [AssertEqualInt (WantStatusCode tt) (StatusCode resp)] t2;
          t4 = (if WantContent tt \<noteq> []
                then report [AssertEqualString (WantContent tt) body] t3 else t3);
          t5 = report (error_checks js tt body) t4;
          (es, w'') = field_checks js tt body (world t5);
          t6 = \<lparr>events = events t5 @ es, world = w''\<rparr>
      in t6)"

text \<open>Lines 117-124: the case's after-hook, then the suite's.\<close>

definition run_after :: "'w TestSuite \<Rightarrow> 'w HandlerTest \<Rightarrow> 'w T \<Rightarrow> 'w T" where
  "run_after ts tt t =
     (let t1 = (case AfterRunFunc tt of
                  Some f \<Rightarrow> call_hook CaseAfter f t
                | None \<Rightarrow> t);
          t2 = (case AfterTestFunc ts of
                  Some f \<Rightarrow> if \<not> SkipAfterTestFunc tt then call_hook SuiteAfter f t1 else t1
                | None \<Rightarrow> t1)
      in t2)"

text \<open>Lines 54-126.\<close>

definition RunHandlerTest :: "json \<Rightarrow> 'w TestSuite \<Rightarrow> 'w HandlerTest \<Rightarrow> 'w T \<Rightarrow> 'w T" where
  "RunHandlerTest js ts tt t =
     run_after ts tt (request_and_verify js ts tt (run_before ts tt t))"


section \<open>Observing a run\<close>

text \<open>
  The definitions of this section are not code of the package: they name parts of a
  run so that the theorems can speak about them.
\<close>

text \<open>The events a run adds to the test context it was given.\<close>

definition run_events :: "json \<Rightarrow> 'w TestSuite \<Rightarrow> 'w HandlerTest \<Rightarrow> 'w T \<Rightarrow> event list" where
  "run_events js ts tt t = drop (length (events t)) (events (RunHandlerTest js ts tt t))"

text \<open>The parameters line 66 builds from the suite.\<close>

definition hreq_of :: "'w TestSuite \<Rightarrow> 'w HandlerReqParams" where
  "hreq_of ts =
     \<lparr>HandlerReqParams.Route = TestSuite.Route ts,
      HandlerReqParams.Method = TestSuite.Method ts,
      HandlerReqParams.HandlerFunc = TestSuite.HandlerFunc ts\<rparr>"

text \<open>
  The events the hooks add, and the world they leave, when they start in world \<open>w\<close>
  with a test context that has no events yet.
\<close>

definition before_events :: "'w TestSuite \<Rightarrow> 'w HandlerTest \<Rightarrow> 'w \<Rightarrow> event list" where
  "before_events ts tt w = events (run_before ts tt \<lparr>events = [], world = w\<rparr>)"

definition world_before :: "'w TestSuite \<Rightarrow> 'w HandlerTest \<Rightarrow> 'w \<Rightarrow> 'w" where
  "world_before ts tt w = world (run_before ts tt \<lparr>events = [], world = w\<rparr>)"

definition after_events :: "'w TestSuite \<Rightarrow> 'w HandlerTest \<Rightarrow> 'w \<Rightarrow> event list" where
  "after_events ts tt w = events (run_after ts tt \<lparr>events = [], world = w\<rparr>)"

text \<open>The world the harness leaves when line 71 calls it in world \<open>w\<close>.\<close>

definition world_handler :: "'w TestSuite \<Rightarrow> 'w HandlerTest \<Rightarrow> 'w \<Rightarrow> 'w" where
  "world_handler ts tt w =
     snd (MakeHandlerRequest (hreq_of ts) (Content tt) [WantStatusCode tt] w)"

text \<open>
  What line 71 obtains in a run that starts with test context \<open>t\<close>: the response,
  the body and the error that \<^verbatim>\<open>MakeHandlerRequest\<close> returns after the before-hooks.
\<close>

definition run_resp :: "'w TestSuite \<Rightarrow> 'w HandlerTest \<Rightarrow> 'w T \<Rightarrow> Response" where
  "run_resp ts tt t =
     harness_resp (hreq_of ts) (Content tt) [WantStatusCode tt] (world (run_before ts tt t))"

definition run_body :: "'w TestSuite \<Rightarrow> 'w HandlerTest \<Rightarrow> 'w T \<Rightarrow> string" where
  "run_body ts tt t =
     harness_body (hreq_of ts) (Content tt) [WantStatusCode tt] (world (run_before ts tt t))"

definition run_err :: "'w TestSuite \<Rightarrow> 'w HandlerTest \<Rightarrow> 'w T \<Rightarrow> error option" where
  "run_err ts tt t =
     harness_err (hreq_of ts) (Content tt) [WantStatusCode tt] (world (run_before ts tt t))"

text \<open>
  The world in which the checks of a run take place: the one the harness left.
\<close>

definition run_world :: "'w TestSuite \<Rightarrow> 'w HandlerTest \<Rightarrow> 'w T \<Rightarrow> 'w" where
  "run_world ts tt t = world_handler ts tt (world (run_before ts tt t))"

text \<open>
  The events of the field assertions when they start in world \<open>w\<close>, and the world
  they leave.
\<close>

definition field_events :: "json \<Rightarrow> 'w HandlerTest \<Rightarrow> string \<Rightarrow> 'w \<Rightarrow> event list" where
  "field_events js tt body w = fst (field_checks js tt body w)"

definition fields_world :: "json \<Rightarrow> 'w HandlerTest \<Rightarrow> string \<Rightarrow> 'w \<Rightarrow> 'w" where
  "fields_world js tt body w = snd (field_checks js tt body w)"

text \<open>
  The checks of lines 72-115 in a run that starts with \<open>t\<close>: on the harness's error,
  on the status, on the raw body, on the error shape and on the fields.
\<close>

definition harness_checks :: "'w TestSuite \<Rightarrow> 'w HandlerTest \<Rightarrow> 'w T \<Rightarrow> event list" where
  "harness_checks ts tt t =
     [AssertNoError (run_err ts tt t),
      AssertEqualInt (WantStatusCode tt) (StatusCode (run_resp ts tt t))]"

definition body_checks :: "'w TestSuite \<Rightarrow> 'w HandlerTest \<Rightarrow> 'w T \<Rightarrow> event list" where
  "body_checks ts tt t =
     (if WantContent tt \<noteq> [] then [AssertEqualString (WantContent tt) (run_body ts tt t)]
      else [])"

text \<open>All of them, in program order.\<close>

definition validator_events :: "json \<Rightarrow> 'w TestSuite \<Rightarrow> 'w HandlerTest \<Rightarrow> 'w T \<Rightarrow> event list" where
  "validator_events js ts tt t =
     harness_checks ts tt t @ body_checks ts tt t @
     error_checks js tt (run_body ts tt t) @
     field_events js tt (run_body ts tt t) (run_world ts tt t)"

text \<open>The steps of the state machine of a run, and the step an event belongs to.\<close>

datatype step = HookStep hook | HarnessStep | ValidatorStep

fun step_of :: "event \<Rightarrow> step" where
  "step_of (HookCalled h msgs) = HookStep h"
| "step_of (HarnessCalled route method' content accepted) = HarnessStep"
| "step_of (AssertNoError err) = ValidatorStep"
| "step_of (AssertEqualInt expected actual) = ValidatorStep"
| "step_of (AssertEqualString expected actual) = ValidatorStep"
| "step_of (AssertNotEmpty s) = ValidatorStep"
| "step_of (AssertContains s sub) = ValidatorStep"
| "step_of (TError err) = ValidatorStep"
| "step_of (TErrorfMissingKey k) = ValidatorStep"
| "step_of (AssertFuncCalled k v msgs) = ValidatorStep"

text \<open>The world a hook leaves; an absent hook leaves it as it is.\<close>

definition hook_world :: "'w TestFunc option \<Rightarrow> 'w \<Rightarrow> 'w" where
  "hook_world hk w = (case hk of None \<Rightarrow> w | Some f \<Rightarrow> snd (f w))"

text \<open>Kinds of events.\<close>

fun is_body_check :: "event \<Rightarrow> bool" where
  "is_body_check (AssertEqualString expected actual) = True"
| "is_body_check e = False"

fun is_field_event :: "event \<Rightarrow> bool" where
  "is_field_event (TErrorfMissingKey k) = True"
| "is_field_event (AssertFuncCalled k v msgs) = True"
| "is_field_event e = False"

text \<open>
  What the loop of lines 108-114 does for one entry in world \<open>w\<close>: a present field
  has its function called on the decoded value; an absent one is reported, and its
  function is called on \<^verbatim>\<open>nil\<close>. \<open>entry_world\<close> is the world that call leaves.
\<close>

definition field_entry :: "(string \<rightharpoonup> iface) \<Rightarrow> string \<times> 'w AssertFunc \<Rightarrow> 'w \<Rightarrow> event list" where
  "field_entry rJSON entry w =
     (case rJSON (fst entry) of
        Some v \<Rightarrow> [AssertFuncCalled (fst entry) v (fst (snd entry v w))]
      | None \<Rightarrow>
          [TErrorfMissingKey (fst entry),
           AssertFuncCalled (fst entry) Nil (fst (snd entry Nil w))])"

definition entry_world :: "(string \<rightharpoonup> iface) \<Rightarrow> string \<times> 'w AssertFunc \<Rightarrow> 'w \<Rightarrow> 'w" where
  "entry_world rJSON entry w =
     (case rJSON (fst entry) of
        Some v \<Rightarrow> snd (snd entry v w)
      | None \<Rightarrow> snd (snd entry Nil w))"

text \<open>
  The worlds in which the entries of the loop are handled, one per entry, when the
  loop starts in world \<open>w\<close>; and the world after the last entry.
\<close>

fun entry_worlds :: "(string \<rightharpoonup> iface) \<Rightarrow> (string \<times> 'w AssertFunc) list \<Rightarrow> 'w \<Rightarrow> 'w list" where
  "entry_worlds rJSON [] w = []"
| "entry_worlds rJSON (entry # rest) w = w # entry_worlds rJSON rest (entry_world rJSON entry w)"

definition loop_world :: "(string \<rightharpoonup> iface) \<Rightarrow> (string \<times> 'w AssertFunc) list \<Rightarrow> 'w \<Rightarrow> 'w" where
  "loop_world rJSON fs w = foldl (\<lambda>w' entry. entry_world rJSON entry w') w fs"





section \<open>Fixtures\<close>

text \<open>
  Concrete suites and cases on which the theorems are evaluated. The world of the
  fixtures is a journal: a list of notes that callbacks may append to.
\<close>

definition body_widget :: string where
  "body_widget = ''{\"id\":\"abc\",\"name\":\"x\"}''"

definition body_not_found :: string where
  "body_not_found = ''{\"code\":404,\"message\":\"not found: widget\"}''"

definition body_plain :: string where
  "body_plain = ''boom''"

text \<open>A handler that answers every request with the same status and body.\<close>

definition serve :: "int \<Rightarrow> ReadCloser \<Rightarrow> 'w HandlerFunc" where
  "serve code rc = (\<lambda>r w. (\<lparr>StatusCode = code, Header = [], Body = rc\<rparr>, w))"

text \<open>The same, leaving a note in the journal.\<close>

definition serve_noting :: "int \<Rightarrow> ReadCloser \<Rightarrow> string list HandlerFunc" where
  "serve_noting code rc =
     (\<lambda>r w. (\<lparr>StatusCode = code, Header = [], Body = rc\<rparr>, w @ [''handler'']))"

text \<open>A hook that leaves a note in the journal and reports nothing.\<close>

definition noting :: "string \<Rightarrow> string list TestFunc" where
  "noting s = (\<lambda>w. ([], w @ [s]))"

text \<open>
  \<^verbatim>\<open>encoding/json\<close> on the bodies of the fixtures. Into an \<^verbatim>\<open>api.Error\<close>:
  \<open>body_not_found\<close> fills both fields, \<open>body_widget\<close> has neither field and leaves
  the zero value, \<open>body_plain\<close> is a syntax error and leaves the zero value. Into a
  map: \<open>body_widget\<close> gives its two entries, \<open>body_plain\<close> is a syntax error and
  leaves the map empty. No fixture decodes another body.
\<close>

definition json_fixture :: json where
  "json_fixture =
     \<lparr>Unmarshal_Error =
        (\<lambda>b. if b = body_not_found
             then (\<lparr>Code = 404, Message = ''not found: widget''\<rparr>, None)
             else if b = body_widget
             then (\<lparr>Code = 0, Message = []\<rparr>, None)
             else (\<lparr>Code = 0, Message = []\<rparr>,
                   Some (LibraryError ''invalid character 'b' looking for beginning of value''))),
      Unmarshal_map =
        (\<lambda>b. if b = body_widget
             then ([''id'' \<mapsto> String ''abc'', ''name'' \<mapsto> String ''x''], None)
             else (Map.empty,
                   Some (LibraryError ''invalid character 'b' looking for beginning of value'')))\<rparr>"

text \<open>
  Two assertion functions that leave the world alone: one wants a given string, one
  refuses \<^verbatim>\<open>nil\<close>.
\<close>

definition want_string :: "string \<Rightarrow> 'w AssertFunc" where
  "want_string s = (\<lambda>v w. (if v = String s then [] else [''Not equal''], w))"

definition want_not_nil :: "'w AssertFunc" where
  "want_not_nil = (\<lambda>v w. (if v = Nil then [''Should NOT be empty''] else [], w))"

text \<open>
  An assertion function that keeps state: it accepts any value the first time it is
  called and leaves a note; it fails whenever it finds its note.
\<close>

definition want_first_call :: "string list AssertFunc" where
  "want_first_call =
     (\<lambda>v w. (if ''asserted'' \<in> set w then [''called before''] else [], w @ [''asserted'']))"

text \<open>
  A hook that changes nothing: it reports a failure when it finds the note
  \<open>broken\<close> in the journal.
\<close>

definition watching :: "string list TestFunc" where
  "watching = (\<lambda>w. (if ''broken'' \<in> set w then [''fixture broken''] else [], w))"

text \<open>A suite without hooks, and a case that only expects a status.\<close>

definition suite_of :: "'w HandlerFunc \<Rightarrow> 'w TestSuite" where
  "suite_of h =
     \<lparr>Route = ''/widgets'', Method = ''POST'', HandlerFunc = h,
      AfterTestFunc = None, BeforeTestFunc = None\<rparr>"

definition case_of :: "int \<Rightarrow> 'w HandlerTest" where
  "case_of code =
     \<lparr>Name = ''case'', Content = [], WantStatusCode = code, WantContent = [],
      WantErr = False, WantErrMessage = [], AssertContentFields = None,
      BeforeRunFunc = None, AfterRunFunc = None,
      SkipBeforeTestFunc = False, SkipAfterTestFunc = False\<rparr>"

text \<open>
  The scenarios: a handler that creates a widget, with and without hooks that leave
  notes; one that answers 200 where 201 is expected; one that answers 404 with the
  error shape; one that answers 500 with plain text.
\<close>

definition widget_suite :: "string list TestSuite" where
  "widget_suite = suite_of (serve 201 (Reader body_widget None))"

definition hooked_suite :: "string list TestSuite" where
  "hooked_suite =
     (suite_of (serve_noting 201 (Reader body_widget None)))
       \<lparr>AfterTestFunc := Some (noting ''suite after''),
        BeforeTestFunc := Some (noting ''suite before'')\<rparr>"

definition hooked_case :: "string list HandlerTest" where
  "hooked_case =
     (case_of 201)
       \<lparr>BeforeRunFunc := Some (noting ''case before''),
        AfterRunFunc := Some (noting ''case after'')\<rparr>"

definition ok_suite :: "string list TestSuite" where
  "ok_suite = suite_of (serve 200 (Reader body_widget None))"

definition not_found_suite :: "string list TestSuite" where
  "not_found_suite = suite_of (serve 404 (Reader body_not_found None))"

definition not_found_case :: "string list HandlerTest" where
  "not_found_case = (case_of 404)\<lparr>WantErr := True, WantErrMessage := ''not found''\<rparr>"

definition boom_suite :: "string list TestSuite" where
  "boom_suite = suite_of (serve 500 (Reader body_plain None))"

definition boom_case :: "string list HandlerTest" where
  "boom_case = (case_of 500)\<lparr>WantErr := True\<rparr>"

definition missing_field_case :: "string list HandlerTest" where
  "missing_field_case =
     (case_of 201)
       \<lparr>AssertContentFields :=
          Some [(''missing_field'', want_not_nil), (''id'', want_not_nil)]\<rparr>"

definition absent_field_case :: "string list HandlerTest" where
  "absent_field_case =
     (case_of 201)
       \<lparr>AssertContentFields := Some [(''name'', want_string ''x''), (''owner'', want_not_nil)]\<rparr>"

text \<open>
  A suite and cases whose four hooks are all configured and change nothing: with
  assertion functions that change nothing, and with one that keeps state.
\<close>

definition watched_suite :: "string list TestSuite" where
  "watched_suite =
     (suite_of (serve 201 (Reader body_widget None)))
       \<lparr>AfterTestFunc := Some watching, BeforeTestFunc := Some watching\<rparr>"

definition watched_case :: "string list HandlerTest" where
  "watched_case =
     (case_of 201)
       \<lparr>AssertContentFields := Some [(''id'', want_not_nil), (''name'', want_string ''x'')],
        BeforeRunFunc := Some watching, AfterRunFunc := Some watching\<rparr>"

definition watched_case_reordered :: "string list HandlerTest" where
  "watched_case_reordered =
     (case_of 201)
       \<lparr>AssertContentFields := Some [(''name'', want_string ''x''), (''id'', want_not_nil)],
        BeforeRunFunc := Some watching, AfterRunFunc := Some watching\<rparr>"

definition stateful_case :: "string list HandlerTest" where
  "stateful_case =
     (case_of 201)
       \<lparr>AssertContentFields := Some [(''id'', want_first_call)],
        BeforeRunFunc := Some watching, AfterRunFunc := Some watching\<rparr>"

text \<open>A fresh test context over an empty journal.\<close>

definition fresh :: "string list T" where
  "fresh = \<lparr>events = [], world = []\<rparr>"

section \<open>Properties of the request harness\<close>

lemma statusMap_fold:
  "fold (\<lambda>status m. m(status \<mapsto> True)) xs m0 k =
     (if k \<in> set xs then Some True else m0 k)"
  by (induction xs arbitrary: m0) auto

lemma statusMap_lookup:
  "statusMap xs k = (if k \<in> set xs then Some True else None)"
  by (simp add: statusMap_def statusMap_fold)

lemma MakeHandlerRequest_resp:
  "harness_resp p content acc w = recorded p content w"
  by (simp add: harness_resp_def recorded_def MakeHandlerRequest_def Let_def statusMap_lookup
      split: prod.splits option.splits)

lemma MakeHandlerRequest_body:
  "harness_body p content acc w = read_body p content w"
  by (simp add: harness_body_def read_body_def recorded_def MakeHandlerRequest_def Let_def
      statusMap_lookup split: prod.splits option.splits)

lemma MakeHandlerRequest_err:
  "harness_err p content acc w =
     (case read_err p content w of
        Some e \<Rightarrow> Some e
      | None \<Rightarrow>
          if acc \<noteq> [] \<and> StatusCode (recorded p content w) \<notin> set acc
          then Some (UnacceptableStatus (HandlerReqParams.Route p)
                       (StatusCode (recorded p content w)) (read_body p content w))
          else None)"
  by (simp add: harness_err_def read_err_def read_body_def recorded_def MakeHandlerRequest_def
      Let_def statusMap_lookup split: prod.splits option.splits)

text \<open>
  C4. When the body read succeeds and the accepted set is not empty, the harness
  returns an error exactly when the recorded status is not among the accepted codes,
  and that error carries the route, the recorded status and the body that was read.
\<close>

theorem MakeHandlerRequest_unaccepted_iff:
  assumes "read_err p content w = None" and "acceptedStatusCodes \<noteq> []"
  shows "(harness_err p content acceptedStatusCodes w \<noteq> None) =
           (StatusCode (recorded p content w) \<notin> set acceptedStatusCodes) \<and>
         harness_err p content acceptedStatusCodes w =
           (if StatusCode (recorded p content w) \<in> set acceptedStatusCodes then None
            else Some (UnacceptableStatus (HandlerReqParams.Route p)
                         (StatusCode (recorded p content w)) (read_body p content w)))"
  using assms by (simp add: MakeHandlerRequest_err)

theorem MakeHandlerRequest_unaccepted_iff_witness:
  "read_err (hreq_of (suite_of (serve 200 (Reader body_widget None)))) [] ([] :: string list) = None \<and>
   [201 :: int] \<noteq> [] \<and>
   harness_err (hreq_of (suite_of (serve 200 (Reader body_widget None)))) [] [201] ([] :: string list) =
     Some (UnacceptableStatus ''/widgets'' 200 body_widget) \<and>
   harness_err (hreq_of (suite_of (serve 201 (Reader body_widget None)))) [] [201] ([] :: string list) =
     None"
  using MakeHandlerRequest_unaccepted_iff
          [of "hreq_of (suite_of (serve 200 (Reader body_widget None)))" "[]" "[] :: string list" "[201]"]
        MakeHandlerRequest_unaccepted_iff
          [of "hreq_of (suite_of (serve 201 (Reader body_widget None)))" "[]" "[] :: string list" "[201]"]
  by (simp add: read_err_def read_body_def recorded_def hreq_of_def suite_of_def serve_def)

text \<open>
  C5. When the accepted set is empty and the body read succeeds, the harness returns
  no error, whatever status the handler recorded.
\<close>

theorem MakeHandlerRequest_no_accepted_codes:
  assumes "read_err p content w = None"
  shows "harness_err p content [] w = None"
  using assms by (simp add: MakeHandlerRequest_err)

theorem MakeHandlerRequest_no_accepted_codes_witness:
  "read_err (hreq_of (suite_of (serve 500 (Reader body_plain None)))) [] ([] :: string list) = None \<and>
   StatusCode (recorded (hreq_of (suite_of (serve 500 (Reader body_plain None)))) [] ([] :: string list)) = 500 \<and>
   harness_err (hreq_of (suite_of (serve 500 (Reader body_plain None)))) [] [] ([] :: string list) = None"
  using MakeHandlerRequest_no_accepted_codes
          [of "hreq_of (suite_of (serve 500 (Reader body_plain None)))" "[]" "[] :: string list"]
  by (simp add: read_err_def recorded_def hreq_of_def suite_of_def serve_def)

text \<open>
  C9. In every outcome the harness returns the response the handler recorded and the
  bytes that were read from its body; the error is the read error, the
  unaccepted-status error, or none.
\<close>

theorem MakeHandlerRequest_always_returns_output:
  "harness_resp p content acceptedStatusCodes w = recorded p content w \<and>
   harness_body p content acceptedStatusCodes w = read_body p content w \<and>
   harness_err p content acceptedStatusCodes w \<in>
     {None, read_err p content w,
      Some (UnacceptableStatus (HandlerReqParams.Route p)
              (StatusCode (recorded p content w)) (read_body p content w))}"
  by (simp add: MakeHandlerRequest_resp MakeHandlerRequest_body MakeHandlerRequest_err
      split: option.splits)

theorem MakeHandlerRequest_always_returns_output_witness:
  "fst (MakeHandlerRequest
          (hreq_of (suite_of (serve 200 (Reader ''par'' (Some (LibraryError ''unexpected EOF''))))))
          [] [200] ([] :: string list)) =
     (\<lparr>StatusCode = 200, Header = [],
       Body = Reader ''par'' (Some (LibraryError ''unexpected EOF''))\<rparr>,
      ''par'', Some (LibraryError ''unexpected EOF''))"
  using MakeHandlerRequest_always_returns_output
          [of "hreq_of (suite_of (serve 200 (Reader ''par'' (Some (LibraryError ''unexpected EOF'')))))"
              "[]" "[200]" "[] :: string list"]
  by (simp add: MakeHandlerRequest_def hreq_of_def suite_of_def serve_def)

section \<open>Properties of a run\<close>

text \<open>The definitions a run unfolds to, and the fixtures, for evaluation.\<close>

lemmas run_simps = run_events_def RunHandlerTest_def run_before_def run_after_def
  request_and_verify_def MakeHandlerRequest_def statusMap_def error_checks_def field_checks_def
  call_hook_def report_def Let_def run_body_def run_resp_def run_err_def harness_body_def
  harness_resp_def harness_err_def hreq_of_def run_world_def world_handler_def
  field_events_def fields_world_def

lemmas fixture_simps = suite_of_def case_of_def fresh_def serve_def serve_noting_def noting_def
  json_fixture_def body_widget_def body_not_found_def body_plain_def want_string_def
  want_not_nil_def widget_suite_def hooked_suite_def hooked_case_def ok_suite_def
  not_found_suite_def not_found_case_def boom_suite_def boom_case_def
  missing_field_case_def absent_field_case_def want_first_call_def watching_def
  watched_suite_def watched_case_def watched_case_reordered_def stateful_case_def

lemma events_report: "events (report es t) = events t @ es"
  by (simp add: report_def)

lemma world_report: "world (report es t) = world t"
  by (simp add: report_def)

lemma events_call_hook: "events (call_hook h f t) = events t @ [HookCalled h (fst (f (world t)))]"
  by (simp add: call_hook_def split: prod.splits)

lemma world_call_hook: "world (call_hook h f t) = snd (f (world t))"
  by (simp add: call_hook_def split: prod.splits)

lemma events_run_before: "events (run_before ts tt t) = events t @ before_events ts tt (world t)"
  by (simp add: run_before_def before_events_def Let_def events_call_hook world_call_hook
      split: option.splits)

lemma world_run_before: "world (run_before ts tt t) = world_before ts tt (world t)"
  by (simp add: run_before_def world_before_def Let_def events_call_hook world_call_hook
      split: option.splits)

lemma events_run_after: "events (run_after ts tt t) = events t @ after_events ts tt (world t)"
  by (simp add: run_after_def after_events_def Let_def events_call_hook world_call_hook
      split: option.splits)

lemma MakeHandlerRequest_parts:
  "MakeHandlerRequest p c acc w =
     ((harness_resp p c acc w, harness_body p c acc w, harness_err p c acc w),
      snd (MakeHandlerRequest p c acc w))"
  by (simp add: harness_resp_def harness_body_def harness_err_def)

lemma field_checks_parts:
  "field_checks js tt b w = (field_events js tt b w, fields_world js tt b w)"
  by (simp add: field_events_def fields_world_def)

lemma events_request_and_verify:
  "events (request_and_verify js ts tt t) =
     events t @
     [HarnessCalled (TestSuite.Route ts) (TestSuite.Method ts) (Content tt) [WantStatusCode tt],
      AssertNoError (harness_err (hreq_of ts) (Content tt) [WantStatusCode tt] (world t)),
      AssertEqualInt (WantStatusCode tt)
        (StatusCode (harness_resp (hreq_of ts) (Content tt) [WantStatusCode tt] (world t)))] @
     (if WantContent tt \<noteq> []
      then [AssertEqualString (WantContent tt)
              (harness_body (hreq_of ts) (Content tt) [WantStatusCode tt] (world t))]
      else []) @
     error_checks js tt (harness_body (hreq_of ts) (Content tt) [WantStatusCode tt] (world t)) @
     field_events js tt (harness_body (hreq_of ts) (Content tt) [WantStatusCode tt] (world t))
       (world_handler ts tt (world t))"
  unfolding request_and_verify_def hreq_of_def [symmetric] world_handler_def
  by (subst MakeHandlerRequest_parts)
     (simp add: Let_def events_report world_report field_checks_parts)

lemma world_request_and_verify:
  "world (request_and_verify js ts tt t) =
     fields_world js tt (harness_body (hreq_of ts) (Content tt) [WantStatusCode tt] (world t))
       (world_handler ts tt (world t))"
  unfolding request_and_verify_def hreq_of_def [symmetric] world_handler_def
  by (subst MakeHandlerRequest_parts)
     (simp add: Let_def events_report world_report field_checks_parts)

lemma run_events_eq:
  "run_events js ts tt t =
     before_events ts tt (world t) @
     [HarnessCalled (TestSuite.Route ts) (TestSuite.Method ts) (Content tt) [WantStatusCode tt]] @
     validator_events js ts tt t @
     after_events ts tt (fields_world js tt (run_body ts tt t) (run_world ts tt t))"
  by (simp add: run_events_def RunHandlerTest_def events_run_after events_request_and_verify
      events_run_before world_request_and_verify world_run_before harness_checks_def
      body_checks_def run_body_def run_resp_def run_err_def validator_events_def run_world_def)

lemma events_RunHandlerTest:
  "events (RunHandlerTest js ts tt t) = events t @ run_events js ts tt t"
  by (simp add: run_events_def RunHandlerTest_def events_run_after events_request_and_verify
      events_run_before)

lemma before_events_eq:
  "before_events ts tt w =
     (case BeforeTestFunc ts of
        Some f \<Rightarrow> if \<not> SkipBeforeTestFunc tt then [HookCalled SuiteBefore (fst (f w))] else []
      | None \<Rightarrow> []) @
     (case BeforeRunFunc tt of
        Some g \<Rightarrow>
          [HookCalled CaseBefore
             (fst (g (if SkipBeforeTestFunc tt then w else hook_world (BeforeTestFunc ts) w)))]
      | None \<Rightarrow> [])"
  by (simp add: before_events_def run_before_def Let_def events_call_hook world_call_hook
      hook_world_def split: option.splits)

lemma world_before_eq:
  "world_before ts tt w =
     hook_world (BeforeRunFunc tt)
       (if SkipBeforeTestFunc tt then w else hook_world (BeforeTestFunc ts) w)"
  by (simp add: world_before_def run_before_def Let_def world_call_hook hook_world_def
      split: option.splits)

lemma after_events_eq:
  "after_events ts tt w =
     (case AfterRunFunc tt of
        Some f \<Rightarrow> [HookCalled CaseAfter (fst (f w))]
      | None \<Rightarrow> []) @
     (case AfterTestFunc ts of
        Some g \<Rightarrow>
          if \<not> SkipAfterTestFunc tt
          then [HookCalled SuiteAfter (fst (g (hook_world (AfterRunFunc tt) w)))] else []
      | None \<Rightarrow> [])"
  by (simp add: after_events_def run_after_def Let_def events_call_hook world_call_hook
      hook_world_def split: option.splits)

lemma world_run_after:
  "world (run_after ts tt t) =
     (if SkipAfterTestFunc tt then hook_world (AfterRunFunc tt) (world t)
      else hook_world (AfterTestFunc ts) (hook_world (AfterRunFunc tt) (world t)))"
  by (simp add: run_after_def Let_def world_call_hook hook_world_def split: option.splits)

lemma run_world_eq:
  "run_world ts tt t =
     world_handler ts tt
       (hook_world (BeforeRunFunc tt)
          (if SkipBeforeTestFunc tt then world t else hook_world (BeforeTestFunc ts) (world t)))"
  by (simp add: run_world_def world_run_before world_before_eq)

lemma world_RunHandlerTest:
  "world (RunHandlerTest js ts tt t) =
     (let w1 = (if SkipBeforeTestFunc tt then world t else hook_world (BeforeTestFunc ts) (world t));
          w2 = hook_world (BeforeRunFunc tt) w1;
          w3 = world_handler ts tt w2;
          w4 = fields_world js tt (run_body ts tt t) w3;
          w5 = hook_world (AfterRunFunc tt) w4
      in if SkipAfterTestFunc tt then w5 else hook_world (AfterTestFunc ts) w5)"
  by (simp add: RunHandlerTest_def world_run_after world_request_and_verify world_run_before
      world_before_eq Let_def run_body_def)

lemma field_loop_eq:
  "field_loop rJSON fs w =
     (concat (map2 (field_entry rJSON) fs (entry_worlds rJSON fs w)), loop_world rJSON fs w)"
proof (induction fs arbitrary: w)
  case Nil
  show ?case by (simp add: loop_world_def)
next
  case (Cons entry fs)
  obtain k f where entry: "entry = (k, f)" by (cases entry)
  show ?case
    by (simp add: entry Cons.IH field_entry_def entry_world_def loop_world_def
        split: option.splits prod.splits)
qed

lemma length_entry_worlds: "length (entry_worlds rJSON fs w) = length fs"
  by (induction fs arbitrary: w) simp_all

lemma field_events_eq:
  assumes "AssertContentFields tt = Some fs" and "Unmarshal_map js b = (rJSON, err)"
  shows "field_events js tt b w =
           (case err of Some e \<Rightarrow> [TError e] | None \<Rightarrow> []) @
           concat (map2 (field_entry rJSON) fs (entry_worlds rJSON fs w))"
    and "fields_world js tt b w = loop_world rJSON fs w"
  using assms by (simp_all add: field_events_def fields_world_def field_checks_def field_loop_eq)

lemma field_events_None:
  assumes "AssertContentFields tt = None"
  shows "field_events js tt b w = []" and "fields_world js tt b w = w"
  using assms by (simp_all add: field_events_def fields_world_def field_checks_def)

lemma steps_field_entry:
  "map step_of (field_entry rJSON entry w) =
     replicate (length (field_entry rJSON entry w)) ValidatorStep"
  by (simp add: field_entry_def split: option.splits)

lemma steps_concat:
  assumes "\<And>xs. xs \<in> set xss \<Longrightarrow> map step_of xs = replicate (length xs) ValidatorStep"
  shows "map step_of (concat xss) = replicate (length (concat xss)) ValidatorStep"
  using assms by (induction xss) (simp_all add: replicate_add [symmetric])

lemma steps_field_events:
  "map step_of (field_events js tt b w) =
     replicate (length (field_events js tt b w)) ValidatorStep"
proof (cases "AssertContentFields tt")
  case None
  then show ?thesis by (simp add: field_events_None)
next
  case (Some fs)
  obtain rJSON err where u: "Unmarshal_map js b = (rJSON, err)"
    by (cases "Unmarshal_map js b")
  have "map step_of (concat (map2 (field_entry rJSON) fs (entry_worlds rJSON fs w))) =
        replicate (length (concat (map2 (field_entry rJSON) fs (entry_worlds rJSON fs w))))
          ValidatorStep"
    by (rule steps_concat) (auto simp add: steps_field_entry)
  then show ?thesis
    by (simp add: field_events_eq(1) [OF Some u] replicate_add [symmetric] split: option.splits)
qed

lemma steps_error_checks:
  "map step_of (error_checks js tt b) = replicate (length (error_checks js tt b)) ValidatorStep"
  by (simp add: error_checks_def split: option.splits prod.splits)

lemma steps_validator_events:
  "map step_of (validator_events js ts tt t) =
     replicate (length (validator_events js ts tt t)) ValidatorStep"
  by (simp add: validator_events_def harness_checks_def body_checks_def steps_error_checks
      steps_field_events replicate_add [symmetric])

text \<open>
  C3. The events of a run are, in this order: the call of the suite's before-hook
  (if it is configured and the case does not skip it), the call of the case's
  before-hook (if configured), the call of the harness, the validator's checks (at
  least the two on the error and on the status), the call of the case's after-hook
  (if configured), the call of the suite's after-hook (if configured and not
  skipped). The world is threaded through the same steps, the field assertions
  included; an absent or skipped hook adds no event and leaves the world as it is.
\<close>

theorem RunHandlerTest_sequence:
  "map step_of (run_events js ts tt t) =
     (if BeforeTestFunc ts \<noteq> None \<and> \<not> SkipBeforeTestFunc tt then [HookStep SuiteBefore] else []) @
     (if BeforeRunFunc tt \<noteq> None then [HookStep CaseBefore] else []) @
     [HarnessStep] @
     replicate (length (validator_events js ts tt t)) ValidatorStep @
     (if AfterRunFunc tt \<noteq> None then [HookStep CaseAfter] else []) @
     (if AfterTestFunc ts \<noteq> None \<and> \<not> SkipAfterTestFunc tt then [HookStep SuiteAfter] else []) \<and>
   2 \<le> length (validator_events js ts tt t) \<and>
   world (RunHandlerTest js ts tt t) =
     (let w1 = (if SkipBeforeTestFunc tt then world t else hook_world (BeforeTestFunc ts) (world t));
          w2 = hook_world (BeforeRunFunc tt) w1;
          w3 = world_handler ts tt w2;
          w4 = fields_world js tt (run_body ts tt t) w3;
          w5 = hook_world (AfterRunFunc tt) w4
      in if SkipAfterTestFunc tt then w5 else hook_world (AfterTestFunc ts) w5)"
proof -
  have "map step_of (before_events ts tt (world t)) =
     (if BeforeTestFunc ts \<noteq> None \<and> \<not> SkipBeforeTestFunc tt then [HookStep SuiteBefore] else []) @
     (if BeforeRunFunc tt \<noteq> None then [HookStep CaseBefore] else [])"
    by (simp add: before_events_eq split: option.splits)
  moreover have "map step_of (after_events ts tt w) =
     (if AfterRunFunc tt \<noteq> None then [HookStep CaseAfter] else []) @
     (if AfterTestFunc ts \<noteq> None \<and> \<not> SkipAfterTestFunc tt then [HookStep SuiteAfter] else [])" for w
    by (simp add: after_events_eq split: option.splits)
  moreover have "2 \<le> length (validator_events js ts tt t)"
    by (simp add: validator_events_def harness_checks_def)
  ultimately show ?thesis
    by (simp add: run_events_eq steps_validator_events world_RunHandlerTest)
qed

theorem RunHandlerTest_sequence_witness:
  "map step_of (run_events json_fixture hooked_suite hooked_case fresh) =
     [HookStep SuiteBefore, HookStep CaseBefore, HarnessStep, ValidatorStep, ValidatorStep,
      HookStep CaseAfter, HookStep SuiteAfter] \<and>
   world (RunHandlerTest json_fixture hooked_suite hooked_case fresh) =
     [''suite before'', ''case before'', ''handler'', ''case after'', ''suite after''] \<and>
   map step_of (run_events json_fixture hooked_suite
                  (hooked_case\<lparr>SkipBeforeTestFunc := True, AfterRunFunc := None\<rparr>) fresh) =
     [HookStep CaseBefore, HarnessStep, ValidatorStep, ValidatorStep, HookStep SuiteAfter] \<and>
   world (RunHandlerTest json_fixture hooked_suite
            (hooked_case\<lparr>SkipBeforeTestFunc := True, AfterRunFunc := None\<rparr>) fresh) =
     [''case before'', ''handler'', ''suite after'']"
  using RunHandlerTest_sequence [where js = json_fixture and ts = hooked_suite
          and tt = hooked_case and t = fresh]
        RunHandlerTest_sequence [where js = json_fixture and ts = hooked_suite
          and tt = "hooked_case\<lparr>SkipBeforeTestFunc := True, AfterRunFunc := None\<rparr>" and t = fresh]
  by (simp add: run_simps fixture_simps)


lemma sublist_validator_events:
  "sublist (validator_events js ts tt t) (run_events js ts tt t)"
  unfolding run_events_eq sublist_def
  by (metis append.assoc)

lemma sublist_error_checks:
  "sublist (error_checks js tt (run_body ts tt t) @
            field_events js tt (run_body ts tt t) (run_world ts tt t))
     (validator_events js ts tt t)"
  unfolding validator_events_def sublist_def
  by (metis append.assoc append_Nil2)

lemma no_body_check_hooks:
  "filter is_body_check (before_events ts tt w) = []"
  "filter is_body_check (after_events ts tt w) = []"
  by (simp_all add: before_events_eq after_events_eq split: option.splits)

lemma no_body_check_error_checks: "filter is_body_check (error_checks js tt b) = []"
  by (simp add: error_checks_def split: option.splits prod.splits)

lemma field_entry_kinds:
  "e \<in> set (field_entry rJSON entry w) \<Longrightarrow> is_field_event e"
  by (auto simp add: field_entry_def split: option.splits)

lemma field_events_kinds:
  assumes "e \<in> set (field_events js tt b w)"
  shows "is_field_event e \<or> (\<exists>x. e = TError x)"
proof (cases "AssertContentFields tt")
  case None
  with assms show ?thesis by (simp add: field_events_None)
next
  case (Some fs)
  obtain rJSON err where u: "Unmarshal_map js b = (rJSON, err)"
    by (cases "Unmarshal_map js b")
  from assms show ?thesis
    unfolding field_events_eq(1) [OF Some u]
    by (auto simp add: field_entry_kinds split: option.splits)
qed

lemma body_check_kind: "is_body_check e \<Longrightarrow> \<not> is_field_event e \<and> e \<noteq> TError x"
  by (cases e) simp_all

lemma no_body_check_field_events: "filter is_body_check (field_events js tt b w) = []"
proof -
  have "\<not> is_body_check e" if "e \<in> set (field_events js tt b w)" for e
    using field_events_kinds [OF that] body_check_kind [of e] by blast
  then show ?thesis
    by (simp add: filter_empty_conv)
qed

text \<open>
  C6. A run performs no raw-body equality check when \<^verbatim>\<open>WantContent\<close> is empty, and
  exactly one when it is not: \<^verbatim>\<open>assert.Equal\<close> of \<^verbatim>\<open>WantContent\<close> and the body the
  harness returned, which fails exactly when the two differ.
\<close>

theorem raw_body_check_iff_WantContent:
  "filter is_body_check (run_events js ts tt t) =
     (if WantContent tt = [] then []
      else [AssertEqualString (WantContent tt) (run_body ts tt t)]) \<and>
   fails (AssertEqualString (WantContent tt) (run_body ts tt t)) =
     (run_body ts tt t \<noteq> WantContent tt)"
  by (auto simp add: run_events_eq validator_events_def harness_checks_def body_checks_def
      no_body_check_hooks no_body_check_error_checks no_body_check_field_events)

theorem raw_body_check_iff_WantContent_witness:
  "filter is_body_check (run_events json_fixture widget_suite (case_of 201) fresh) = [] \<and>
   filter is_body_check
     (run_events json_fixture widget_suite ((case_of 201)\<lparr>WantContent := ''{}''\<rparr>) fresh) =
     [AssertEqualString ''{}'' body_widget] \<and>
   fails (AssertEqualString ''{}'' body_widget) \<and>
   filter fails
     (run_events json_fixture widget_suite ((case_of 201)\<lparr>WantContent := body_widget\<rparr>) fresh) = []"
  using raw_body_check_iff_WantContent [where js = json_fixture and ts = widget_suite
          and tt = "case_of 201" and t = fresh]
        raw_body_check_iff_WantContent [where js = json_fixture and ts = widget_suite
          and tt = "(case_of 201)\<lparr>WantContent := ''{}''\<rparr>" and t = fresh]
  by (simp add: run_simps fixture_simps)

lemma error_checks_decoded:
  assumes "WantErr tt \<or> WantErrMessage tt \<noteq> []"
    and "Unmarshal_Error js b = (errH, err)"
  shows "error_checks js tt b =
           (case err of Some e \<Rightarrow> [TError e] | None \<Rightarrow> []) @
           [AssertEqualInt (WantStatusCode tt) (Code errH)] @
           (if WantErr tt then [AssertNotEmpty (Message errH)] else []) @
           (if WantErrMessage tt \<noteq> []
            then [AssertContains (Message errH) (WantErrMessage tt)] else [])"
  using assms by (auto simp add: error_checks_def)

text \<open>
  C7. When \<^verbatim>\<open>WantErr\<close> is set or \<^verbatim>\<open>WantErrMessage\<close> is not empty, and the body
  decodes into the error shape without error, the block performs: the equality check
  of the decoded code against \<^verbatim>\<open>WantStatusCode\<close>; the non-emptiness check of the
  decoded message if \<^verbatim>\<open>WantErr\<close> is set; the containment check of
  \<^verbatim>\<open>WantErrMessage\<close> in the decoded message if it is not empty. These checks are part
  of the run, and none of them fails exactly when the code is the expected status, the
  message is not empty where that is required, and contains the substring where that
  is required.
\<close>

theorem error_shape_checks:
  assumes "WantErr tt \<or> WantErrMessage tt \<noteq> []"
    and "Unmarshal_Error js (run_body ts tt t) = (errH, None)"
  shows "error_checks js tt (run_body ts tt t) =
           [AssertEqualInt (WantStatusCode tt) (Code errH)] @
           (if WantErr tt then [AssertNotEmpty (Message errH)] else []) @
           (if WantErrMessage tt \<noteq> []
            then [AssertContains (Message errH) (WantErrMessage tt)] else []) \<and>
         sublist (error_checks js tt (run_body ts tt t)) (run_events js ts tt t) \<and>
         (\<forall>e \<in> set (error_checks js tt (run_body ts tt t)). \<not> fails e) =
           (Code errH = WantStatusCode tt \<and>
            (WantErr tt \<longrightarrow> Message errH \<noteq> []) \<and>
            (WantErrMessage tt \<noteq> [] \<longrightarrow> sublist (WantErrMessage tt) (Message errH)))"
proof -
  have eq: "error_checks js tt (run_body ts tt t) =
           [AssertEqualInt (WantStatusCode tt) (Code errH)] @
           (if WantErr tt then [AssertNotEmpty (Message errH)] else []) @
           (if WantErrMessage tt \<noteq> []
            then [AssertContains (Message errH) (WantErrMessage tt)] else [])"
    using error_checks_decoded [OF assms] by simp
  have "sublist (error_checks js tt (run_body ts tt t)) (validator_events js ts tt t)"
    unfolding validator_events_def sublist_def by (metis append.assoc)
  then have sub: "sublist (error_checks js tt (run_body ts tt t)) (run_events js ts tt t)"
    using sublist_validator_events sublist_order.order_trans by blast
  have verdict: "(\<forall>e \<in> set (error_checks js tt (run_body ts tt t)). \<not> fails e) =
           (Code errH = WantStatusCode tt \<and>
            (WantErr tt \<longrightarrow> Message errH \<noteq> []) \<and>
            (WantErrMessage tt \<noteq> [] \<longrightarrow> sublist (WantErrMessage tt) (Message errH)))"
    unfolding eq by auto
  from eq sub verdict show ?thesis by blast
qed

theorem error_shape_checks_witness:
  "WantErr not_found_case \<and>
   Unmarshal_Error json_fixture (run_body not_found_suite not_found_case fresh) =
     (\<lparr>Code = 404, Message = ''not found: widget''\<rparr>, None) \<and>
   error_checks json_fixture not_found_case (run_body not_found_suite not_found_case fresh) =
     [AssertEqualInt 404 404, AssertNotEmpty ''not found: widget'',
      AssertContains ''not found: widget'' ''not found''] \<and>
   filter fails (run_events json_fixture not_found_suite not_found_case fresh) = []"
  using error_shape_checks [where js = json_fixture and ts = not_found_suite
          and tt = not_found_case and t = fresh
          and errH = "\<lparr>Code = 404, Message = ''not found: widget''\<rparr>"]
  by (simp add: run_simps fixture_simps sublist_code prefix_code)

text \<open>
  C2 as stated fails. The handler answers 500 with the plain text \<open>boom\<close>, and the
  case sets \<^verbatim>\<open>WantErr\<close>. The body does not decode; after the report of the decode
  error the run still checks the code (the zero value against 500) and the message
  (the empty string) of the \<^verbatim>\<open>api.Error\<close> the decoder left.
\<close>

theorem decode_failure_aborts_counterexample:
  "snd (Unmarshal_Error json_fixture (run_body boom_suite boom_case fresh)) =
     Some (LibraryError ''invalid character 'b' looking for beginning of value'') \<and>
   run_events json_fixture boom_suite boom_case fresh =
     [HarnessCalled ''/widgets'' ''POST'' [] [500], AssertNoError None, AssertEqualInt 500 500,
      TError (LibraryError ''invalid character 'b' looking for beginning of value''),
      AssertEqualInt 500 0, AssertNotEmpty []]"
  by (simp add: run_simps fixture_simps)

text \<open>
  C2, as the code has it. When the checks on the error shape are triggered and the
  body does not decode, the decode error is reported with \<^verbatim>\<open>t.Error\<close>, and the block
  then goes on: the code equality, the message non-emptiness (if \<^verbatim>\<open>WantErr\<close>) and
  the substring containment (if \<^verbatim>\<open>WantErrMessage\<close> is not empty) are checked on the
  \<^verbatim>\<open>api.Error\<close> value as the failed decode left it. The field assertions follow in
  the run as usual.
\<close>

theorem decode_failure_checks_go_on:
  assumes "WantErr tt \<or> WantErrMessage tt \<noteq> []"
    and "Unmarshal_Error js (run_body ts tt t) = (errH, Some e)"
  shows "error_checks js tt (run_body ts tt t) =
           [TError e, AssertEqualInt (WantStatusCode tt) (Code errH)] @
           (if WantErr tt then [AssertNotEmpty (Message errH)] else []) @
           (if WantErrMessage tt \<noteq> []
            then [AssertContains (Message errH) (WantErrMessage tt)] else []) \<and>
         fails (TError e) \<and>
         sublist (error_checks js tt (run_body ts tt t) @
                  field_events js tt (run_body ts tt t) (run_world ts tt t))
           (run_events js ts tt t)"
proof -
  have eq: "error_checks js tt (run_body ts tt t) =
           [TError e, AssertEqualInt (WantStatusCode tt) (Code errH)] @
           (if WantErr tt then [AssertNotEmpty (Message errH)] else []) @
           (if WantErrMessage tt \<noteq> []
            then [AssertContains (Message errH) (WantErrMessage tt)] else [])"
    using error_checks_decoded [OF assms] by simp
  have sub: "sublist (error_checks js tt (run_body ts tt t) @
                  field_events js tt (run_body ts tt t) (run_world ts tt t))
           (run_events js ts tt t)"
    using sublist_error_checks sublist_validator_events sublist_order.order_trans by blast
  from eq sub show ?thesis by simp
qed

theorem decode_failure_checks_go_on_witness:
  "WantErr boom_case \<and>
   Unmarshal_Error json_fixture (run_body boom_suite boom_case fresh) =
     (\<lparr>Code = 0, Message = []\<rparr>,
      Some (LibraryError ''invalid character 'b' looking for beginning of value'')) \<and>
   error_checks json_fixture boom_case (run_body boom_suite boom_case fresh) =
     [TError (LibraryError ''invalid character 'b' looking for beginning of value''),
      AssertEqualInt 500 0, AssertNotEmpty []] \<and>
   sublist
     (error_checks json_fixture boom_case (run_body boom_suite boom_case fresh) @
      field_events json_fixture boom_case (run_body boom_suite boom_case fresh)
        (run_world boom_suite boom_case fresh))
     (run_events json_fixture boom_suite boom_case fresh)"
  using decode_failure_checks_go_on [where js = json_fixture and ts = boom_suite
          and tt = boom_case and t = fresh and errH = "\<lparr>Code = 0, Message = []\<rparr>"
          and e = "LibraryError ''invalid character 'b' looking for beginning of value''"]
  by (simp add: run_simps fixture_simps)


lemma no_field_event_hooks:
  "filter is_field_event (before_events ts tt w) = []"
  "filter is_field_event (after_events ts tt w) = []"
  by (simp_all add: before_events_eq after_events_eq split: option.splits)

lemma no_field_event_error_checks: "filter is_field_event (error_checks js tt b) = []"
  by (simp add: error_checks_def split: option.splits prod.splits)

lemma all_field_event_entries:
  "filter is_field_event (concat (map2 (field_entry rJSON) fs ws)) =
     concat (map2 (field_entry rJSON) fs ws)"
  by (auto simp add: filter_id_conv field_entry_kinds)

lemma field_events_filtered:
  assumes "AssertContentFields tt = Some fs" and "Unmarshal_map js b = (rJSON, err)"
  shows "filter is_field_event (field_events js tt b w) =
           concat (map2 (field_entry rJSON) fs (entry_worlds rJSON fs w))"
  by (simp add: field_events_eq(1) [OF assms] all_field_event_entries split: option.splits)

lemma sublist_concat_member: "xs \<in> set xss \<Longrightarrow> sublist xs (concat xss)"
proof -
  assume "xs \<in> set xss"
  then obtain as bs where "xss = as @ xs # bs"
    by (meson split_list)
  then have "concat xss = concat as @ xs @ concat bs"
    by simp
  then show ?thesis
    unfolding sublist_def by blast
qed

lemma sublist_field_entries_run:
  assumes "AssertContentFields tt = Some fs"
    and "Unmarshal_map js (run_body ts tt t) = (rJSON, err)"
  shows "sublist (concat (map2 (field_entry rJSON) fs (entry_worlds rJSON fs (run_world ts tt t))))
           (run_events js ts tt t)"
proof -
  have "sublist (concat (map2 (field_entry rJSON) fs (entry_worlds rJSON fs (run_world ts tt t))))
          (validator_events js ts tt t)"
    unfolding validator_events_def field_events_eq(1) [OF assms] sublist_def
    by (metis append.assoc append_Nil2)
  then show ?thesis
    using sublist_validator_events sublist_order.order_trans by blast
qed

text \<open>
  C1 as stated fails. The handler answers 201 with a widget that has the fields
  \<open>id\<close> and \<open>name\<close>, and the case configures an assertion for \<open>missing_field\<close>. After
  the missing-key error the assertion function of \<open>missing_field\<close> is called, on
  \<^verbatim>\<open>nil\<close>.
\<close>

theorem missing_field_not_invoked_counterexample:
  "fst (Unmarshal_map json_fixture (run_body widget_suite missing_field_case fresh))
     ''missing_field'' = None \<and>
   run_events json_fixture widget_suite missing_field_case fresh =
     [HarnessCalled ''/widgets'' ''POST'' [] [201], AssertNoError None, AssertEqualInt 201 201,
      TErrorfMissingKey ''missing_field'',
      AssertFuncCalled ''missing_field'' Nil [''Should NOT be empty''],
      AssertFuncCalled ''id'' (String ''abc'') []]"
  by (simp add: run_simps fixture_simps)

text \<open>
  C1, as the code has it. With a field map configured, the missing-key reports and
  the calls of assertion functions in a run are exactly those of the configured
  entries, in the order of the loop, each in the world the previous call left: for a
  field present in the decoded map, one call of its function on the decoded value;
  for an absent field, the missing-key error followed by one call of its function on
  \<^verbatim>\<open>nil\<close>. The missing-key error marks the test as failed, so a missing field never
  passes silently.
\<close>

theorem field_assertions_dispatch:
  assumes "AssertContentFields tt = Some fs"
    and "Unmarshal_map js (run_body ts tt t) = (rJSON, err)"
  shows "filter is_field_event (run_events js ts tt t) =
           concat (map2 (field_entry rJSON) fs (entry_worlds rJSON fs (run_world ts tt t))) \<and>
         length (entry_worlds rJSON fs (run_world ts tt t)) = length fs \<and>
         (\<forall>(entry, w) \<in> set (zip fs (entry_worlds rJSON fs (run_world ts tt t))).
            sublist
              (case rJSON (fst entry) of
                 Some v \<Rightarrow> [AssertFuncCalled (fst entry) v (fst (snd entry v w))]
               | None \<Rightarrow>
                   [TErrorfMissingKey (fst entry),
                    AssertFuncCalled (fst entry) Nil (fst (snd entry Nil w))])
              (run_events js ts tt t)) \<and>
         ((\<exists>entry \<in> set fs. rJSON (fst entry) = None) \<longrightarrow>
            filter fails (run_events js ts tt t) \<noteq> [])"
proof -
  let ?ws = "entry_worlds rJSON fs (run_world ts tt t)"
  have "filter is_field_event (run_events js ts tt t) =
          filter is_field_event (field_events js tt (run_body ts tt t) (run_world ts tt t))"
    by (simp add: run_events_eq validator_events_def harness_checks_def body_checks_def
        no_field_event_hooks no_field_event_error_checks)
  then have eq: "filter is_field_event (run_events js ts tt t) =
      concat (map2 (field_entry rJSON) fs ?ws)"
    using field_events_filtered [OF assms] by simp
  have len: "length ?ws = length fs"
    by (rule length_entry_worlds)
  have entry: "sublist (field_entry rJSON entry w) (run_events js ts tt t)"
    if "(entry, w) \<in> set (zip fs ?ws)" for entry w
  proof -
    have "field_entry rJSON entry w \<in> set (map2 (field_entry rJSON) fs ?ws)"
      using that by force
    then show ?thesis
      using sublist_concat_member sublist_field_entries_run [OF assms]
        sublist_order.order_trans by blast
  qed
  then have sub: "\<forall>(entry, w) \<in> set (zip fs ?ws).
            sublist
              (case rJSON (fst entry) of
                 Some v \<Rightarrow> [AssertFuncCalled (fst entry) v (fst (snd entry v w))]
               | None \<Rightarrow>
                   [TErrorfMissingKey (fst entry),
                    AssertFuncCalled (fst entry) Nil (fst (snd entry Nil w))])
              (run_events js ts tt t)"
    by (auto simp add: field_entry_def)
  have loud: "filter fails (run_events js ts tt t) \<noteq> []"
    if absent: "\<exists>entry \<in> set fs. rJSON (fst entry) = None"
  proof -
    obtain entry where "entry \<in> set fs" and none: "rJSON (fst entry) = None"
      using absent by blast
    then obtain w where "(entry, w) \<in> set (zip fs ?ws)"
      using len in_set_impl_in_set_zip1 [of fs ?ws entry] by auto
    then have "sublist (field_entry rJSON entry w) (run_events js ts tt t)"
      by (rule entry)
    then have "set (field_entry rJSON entry w) \<subseteq> set (run_events js ts tt t)"
      by (rule set_mono_sublist)
    then have "TErrorfMissingKey (fst entry) \<in> set (run_events js ts tt t)"
      using none by (simp add: field_entry_def)
    moreover have "fails (TErrorfMissingKey (fst entry))"
      by simp
    ultimately have "\<exists>e \<in> set (run_events js ts tt t). fails e"
      by blast
    then show ?thesis
      by (simp add: filter_empty_conv)
  qed
  from eq len sub loud show ?thesis by blast
qed

theorem field_assertions_dispatch_witness:
  "AssertContentFields absent_field_case =
     Some [(''name'', want_string ''x''), (''owner'', want_not_nil)] \<and>
   Unmarshal_map json_fixture (run_body widget_suite absent_field_case fresh) =
     ([''id'' \<mapsto> String ''abc'', ''name'' \<mapsto> String ''x''], None) \<and>
   filter is_field_event (run_events json_fixture widget_suite absent_field_case fresh) =
     [AssertFuncCalled ''name'' (String ''x'') [],
      TErrorfMissingKey ''owner'',
      AssertFuncCalled ''owner'' Nil [''Should NOT be empty'']] \<and>
   filter fails (run_events json_fixture widget_suite absent_field_case fresh) =
     [TErrorfMissingKey ''owner'',
      AssertFuncCalled ''owner'' Nil [''Should NOT be empty'']]"
  using field_assertions_dispatch [where js = json_fixture and ts = widget_suite
          and tt = absent_field_case and t = fresh
          and fs = "[(''name'', want_string ''x''), (''owner'', want_not_nil)]"
          and rJSON = "[''id'' \<mapsto> String ''abc'', ''name'' \<mapsto> String ''x'']"
          and err = None]
  by (simp add: run_simps fixture_simps field_entry_def entry_world_def)

lemma run_resp_recorded:
  "run_resp ts tt t = recorded (hreq_of ts) (Content tt) (world (run_before ts tt t))"
  by (simp add: run_resp_def MakeHandlerRequest_resp)

text \<open>
  C8. When the body of the response can be read and the recorded status differs from
  \<^verbatim>\<open>WantStatusCode\<close>, the harness returns the unaccepted-status error (route, recorded
  status, body); \<^verbatim>\<open>assert.NoError\<close> on that error fails, the status equality check
  fails as well, and both are followed in the run by the remaining checks of the
  validator.
\<close>

theorem status_mismatch_reported_twice:
  assumes "snd (ReadAll (Body (run_resp ts tt t))) = None"
    and "StatusCode (run_resp ts tt t) \<noteq> WantStatusCode tt"
  shows "run_err ts tt t =
           Some (UnacceptableStatus (TestSuite.Route ts) (StatusCode (run_resp ts tt t))
                   (run_body ts tt t)) \<and>
         fails (AssertNoError (run_err ts tt t)) \<and>
         fails (AssertEqualInt (WantStatusCode tt) (StatusCode (run_resp ts tt t))) \<and>
         sublist ([AssertNoError (run_err ts tt t),
                   AssertEqualInt (WantStatusCode tt) (StatusCode (run_resp ts tt t))] @
                  body_checks ts tt t @
                  error_checks js tt (run_body ts tt t) @
                  field_events js tt (run_body ts tt t) (run_world ts tt t))
           (run_events js ts tt t)"
proof -
  have "read_err (hreq_of ts) (Content tt) (world (run_before ts tt t)) = None"
    using assms(1) by (simp add: read_err_def run_resp_recorded)
  then have err: "run_err ts tt t =
           Some (UnacceptableStatus (TestSuite.Route ts) (StatusCode (run_resp ts tt t))
                   (run_body ts tt t))"
    using assms(2)
    by (simp add: run_err_def run_body_def run_resp_recorded MakeHandlerRequest_err
        MakeHandlerRequest_body hreq_of_def)
  have sub: "sublist ([AssertNoError (run_err ts tt t),
                   AssertEqualInt (WantStatusCode tt) (StatusCode (run_resp ts tt t))] @
                  body_checks ts tt t @
                  error_checks js tt (run_body ts tt t) @
                  field_events js tt (run_body ts tt t) (run_world ts tt t))
           (run_events js ts tt t)"
    using sublist_validator_events [of js ts tt t]
    by (simp add: validator_events_def harness_checks_def)
  from err sub assms(2) show ?thesis by simp
qed

theorem status_mismatch_reported_twice_witness:
  "snd (ReadAll (Body (run_resp ok_suite (case_of 201) fresh))) = None \<and>
   StatusCode (run_resp ok_suite (case_of 201) fresh) = 200 \<and>
   WantStatusCode (case_of 201 :: string list HandlerTest) = 201 \<and>
   run_err ok_suite (case_of 201) fresh =
     Some (UnacceptableStatus ''/widgets'' 200 body_widget) \<and>
   run_events json_fixture ok_suite (case_of 201) fresh =
     [HarnessCalled ''/widgets'' ''POST'' [] [201],
      AssertNoError (Some (UnacceptableStatus ''/widgets'' 200 body_widget)),
      AssertEqualInt 201 200] \<and>
   filter fails (run_events json_fixture ok_suite (case_of 201) fresh) =
     [AssertNoError (Some (UnacceptableStatus ''/widgets'' 200 body_widget)),
      AssertEqualInt 201 200]"
  using status_mismatch_reported_twice [where js = json_fixture and ts = ok_suite
          and tt = "case_of 201" and t = fresh]
  by (simp add: run_simps fixture_simps)



















end
